theory Spec2Isabelle
  imports Main
begin

section \<open>Strings\<close>

text \<open>
  A Python \<open>str\<close> is a sequence of code points and \<open>len\<close> counts code points. The model
  writes a \<open>str\<close> as a \<open>string\<close> with one \<open>char\<close> per code point, which covers the code
  points 0 to 255. The character classes below (\<open>isspace\<close>, \<open>lower\<close>, the regular
  expression class \<open>\w\<close>) are Python's on that range.
\<close>

abbreviation NL :: char where "NL \<equiv> CHR 0x0A"
abbreviation SP :: char where "SP \<equiv> CHR '' ''"
abbreviation TAB :: char where "TAB \<equiv> CHR 0x09"
abbreviation DQ :: char where "DQ \<equiv> CHR 0x22"
abbreviation SQ :: char where "SQ \<equiv> CHR 0x27"

text \<open>
  The bullet U+2022 that starts each line of the command list lies beyond 255. It is one
  code point, and the source does nothing with it but compare it with the space and the
  newline. \<open>BULLET\<close> stands for it: one \<open>char\<close> that is no whitespace and no word character.
\<close>

abbreviation BULLET :: char where "BULLET \<equiv> CHR 0x95"

text \<open>\<open>sep.join(xs)\<close> for a separator of one character.\<close>

fun join :: "char \<Rightarrow> string list \<Rightarrow> string" where
  "join sep [] = []"
| "join sep [x] = x"
| "join sep (x # y # ys) = x @ sep # join sep (y # ys)"

text \<open>
  \<open>s.split(sep)\<close> for a separator of one character: the result is never empty, and
  adjacent separators give empty strings.
\<close>

fun split_on :: "char \<Rightarrow> string \<Rightarrow> string list" where
  "split_on sep [] = [[]]"
| "split_on sep (c # cs) =
     (if c = sep then [] # split_on sep cs
      else (case split_on sep cs of
              [] \<Rightarrow> [[c]]
            | w # ws \<Rightarrow> (c # w) # ws))"

text \<open>
  \<open>c.isspace()\<close> on the code points 0 to 255: tab, line feed, vertical tab, form feed,
  carriage return, the separators 0x1C to 0x1F, space, NEL (0x85) and the no-break space
  (0xA0).
\<close>

definition is_space :: "char \<Rightarrow> bool" where
  "is_space c =
     (let n = (of_char c :: nat)
      in (9 \<le> n \<and> n \<le> 13) \<or> (28 \<le> n \<and> n \<le> 32) \<or> n = 133 \<or> n = 160)"

text \<open>\<open>s.strip()\<close>: leading and trailing whitespace removed.\<close>

definition strip :: "string \<Rightarrow> string" where
  "strip s = rev (dropWhile is_space (rev (dropWhile is_space s)))"

text \<open>
  \<open>s.lower()\<close> on the code points 0 to 255: A to Z and the Latin-1 capitals 0xC0 to 0xDE
  (the multiplication sign 0xD7 apart) move up by 32; the length never changes.
\<close>

definition lower_char :: "char \<Rightarrow> char" where
  "lower_char c =
     (let n = (of_char c :: nat)
      in if (65 \<le> n \<and> n \<le> 90) \<or> (192 \<le> n \<and> n \<le> 222 \<and> n \<noteq> 215)
         then char_of (n + 32) else c)"

definition lower :: "string \<Rightarrow> string" where
  "lower s = map lower_char s"

definition startswith :: "string \<Rightarrow> string \<Rightarrow> bool" where
  "startswith s p \<longleftrightarrow> take (length p) s = p"

definition endswith :: "string \<Rightarrow> string \<Rightarrow> bool" where
  "endswith s p \<longleftrightarrow> length p \<le> length s \<and> drop (length s - length p) s = p"

text \<open>
  The class \<open>\w\<close> of a \<open>str\<close> pattern on the code points 0 to 255: the characters for
  which \<open>isalnum()\<close> holds, and the underscore.
\<close>

definition is_word :: "char \<Rightarrow> bool" where
  "is_word c =
     (let n = (of_char c :: nat)
      in (48 \<le> n \<and> n \<le> 57) \<or> (65 \<le> n \<and> n \<le> 90) \<or> n = 95 \<or> (97 \<le> n \<and> n \<le> 122)
         \<or> n = 170 \<or> n = 178 \<or> n = 179 \<or> n = 181 \<or> n = 185 \<or> n = 186
         \<or> (188 \<le> n \<and> n \<le> 190) \<or> (192 \<le> n \<and> n \<le> 214) \<or> (216 \<le> n \<and> n \<le> 246)
         \<or> (248 \<le> n \<and> n \<le> 255))"

text \<open>
  \<open>re.search(r'\{(\w+)\}', s)\<close>, as the truth value the source tests. The greedy \<open>\w+\<close>
  takes the longest run of word characters; a closing brace is no word character, so
  backtracking finds no further match.
\<close>

definition re_param_here :: "string \<Rightarrow> bool" where
  "re_param_here s =
     (case s of
        [] \<Rightarrow> False
      | c # cs \<Rightarrow>
          c = CHR ''{'' \<and> takeWhile is_word cs \<noteq> []
          \<and> (case dropWhile is_word cs of [] \<Rightarrow> False | d # _ \<Rightarrow> d = CHR ''}''))"

fun re_search_param :: "string \<Rightarrow> bool" where
  "re_search_param [] = False"
| "re_search_param (c # cs) = (re_param_here (c # cs) \<or> re_search_param cs)"

section \<open>The paginator: \<open>split_message\<close>\<close>

text \<open>
  The inner loop of \<open>split_message\<close> (\<open>for word in words\<close>), as it stands in \<open>ai.py\<close>,
  \<open>fun.py\<close> and \<open>sunrise.py\<close>. The state is \<open>messages\<close> and \<open>current_line\<close>.
\<close>

fun wrap_words :: "int \<Rightarrow> string list \<Rightarrow> string list \<Rightarrow> string list
    \<Rightarrow> string list \<times> string list" where
  "wrap_words max_chars messages current_line [] = (messages, current_line)"
| "wrap_words max_chars messages current_line (word # words) =
     (let test_line = (if current_line \<noteq> [] then join SP (current_line @ [word]) else word)
      in if int (length test_line) \<le> max_chars
         then wrap_words max_chars messages (current_line @ [word]) words
         else wrap_words max_chars
                (if current_line \<noteq> [] then messages @ [join SP current_line] else messages)
                [word] words)"

text \<open>The outer loop (\<open>for line in lines\<close>). The state is \<open>messages\<close> and \<open>current_message\<close>.\<close>

fun pack_lines :: "int \<Rightarrow> string list \<Rightarrow> string list \<Rightarrow> string list
    \<Rightarrow> string list \<times> string list" where
  "pack_lines max_chars messages current_message [] = (messages, current_message)"
| "pack_lines max_chars messages current_message (line # lines) =
     (let test_message =
            (if current_message \<noteq> [] then join NL (current_message @ [line]) else line)
      in if int (length test_message) \<le> max_chars
         then pack_lines max_chars messages (current_message @ [line]) lines
         else
           (let messages1 =
                  (if current_message \<noteq> [] then messages @ [join NL current_message]
                   else messages)
            in if int (length line) > max_chars
               then (case wrap_words max_chars messages1 [] (split_on SP line) of
                       (messages2, current_line) \<Rightarrow>
                         pack_lines max_chars messages2
                           (if current_line \<noteq> [] then [join SP current_line]
                            else current_message)
                           lines)
               else pack_lines max_chars messages1 [line] lines))"

definition split_message :: "string \<Rightarrow> int \<Rightarrow> string list" where
  "split_message text max_chars =
     (if int (length text) \<le> max_chars then [text]
      else (case pack_lines max_chars [] [] (split_on NL text) of
              (messages, current_message) \<Rightarrow>
                (if current_message \<noteq> [] then messages @ [join NL current_message]
                 else messages)))"

section \<open>The parameter resolver\<close>

text \<open>
  The process environment is a map from names to values; \<open>os.environ.get(k, d)\<close> gives
  the default \<open>d\<close> for a name that is not set.
\<close>

type_synonym environ = "string \<rightharpoonup> string"

definition environ_get :: "environ \<Rightarrow> string \<Rightarrow> string \<Rightarrow> string" where
  "environ_get env k d = (case env k of None \<Rightarrow> d | Some v \<Rightarrow> v)"

text \<open>\<open>a or b\<close> on strings: \<open>a\<close> unless it is empty.\<close>

definition str_or :: "string \<Rightarrow> string \<Rightarrow> string" where
  "str_or a b = (if a \<noteq> [] then a else b)"

text \<open>
  The quote removal that follows every extraction:
  \<^verbatim>\<open>if q.startswith('"') and q.endswith('"'): q = q[1:-1]\<close>, then the same test with
  the single quote. The slice \<open>q[1:-1]\<close> of a string of one character is empty.
\<close>

definition remove_quotes :: "string \<Rightarrow> string" where
  "remove_quotes q =
     (if startswith q [DQ] \<and> endswith q [DQ] then butlast (tl q)
      else if startswith q [SQ] \<and> endswith q [SQ] then butlast (tl q)
      else q)"

text \<open>
  The test and assignment the source repeats under each way of finding the prefix: when
  the lowered message starts with the lowered prefix, the argument becomes the message
  after \<open>len(trigger_prefix)\<close> characters, stripped and unquoted; otherwise it keeps its
  value.
\<close>

definition extract_after :: "string \<Rightarrow> string \<Rightarrow> string \<Rightarrow> string" where
  "extract_after original_message trigger_prefix question =
     (if startswith (lower original_message) (lower trigger_prefix)
      then remove_quotes (strip (drop (length trigger_prefix) original_message))
      else question)"

text \<open>
  The last branch of \<open>ai.py\<close>: \<open>for prefix in ['ask ', 'ai ', 'chat ']\<close>, leaving the loop
  at the first prefix that the lowered message starts with.
\<close>

fun known_prefix_loop :: "string \<Rightarrow> string \<Rightarrow> string list \<Rightarrow> string" where
  "known_prefix_loop original_message question [] = question"
| "known_prefix_loop original_message question (prefix # prefixes) =
     (if startswith (lower original_message) prefix
      then remove_quotes (strip (drop (length prefix) original_message))
      else known_prefix_loop original_message question prefixes)"

text \<open>
  \<open>trigger_pattern.split('{')[0]\<close>: the first field of a split, which always has one.
\<close>

definition before_brace :: "string \<Rightarrow> string" where
  "before_brace trigger_pattern = hd (split_on (CHR ''{'') trigger_pattern)"

text \<open>The resolver of \<open>ai.py\<close> (\<open>main\<close>, up to the creation of the bot).\<close>

definition resolve_ai :: "environ \<Rightarrow> string" where
  "resolve_ai env =
     (let question =
            strip (str_or (environ_get env ''PARAM_question'' [])
                     (str_or (environ_get env ''PARAM_prompt'' [])
                        (environ_get env ''PARAM_message'' [])))
      in if question = [] \<or> (length question < 3 \<and> SP \<in> set (environ_get env ''MESSAGE'' []))
         then
           (let original_message = strip (environ_get env ''MESSAGE'' []);
                trigger_pattern = strip (environ_get env ''TRIGGER'' [])
            in if original_message \<noteq> [] \<and> trigger_pattern \<noteq> []
               then
                 (if re_search_param trigger_pattern
                  then extract_after original_message (strip (before_brace trigger_pattern))
                         question
                  else extract_after original_message
                         (if CHR ''{'' \<in> set trigger_pattern
                          then strip (before_brace trigger_pattern) else trigger_pattern)
                         question)
               else if original_message \<noteq> []
               then known_prefix_loop original_message question [''ask '', ''ai '', ''chat '']
               else question)
         else question)"

text \<open>The resolver of \<open>sunrise.py\<close>: the threshold is 2 and there is no list of prefixes.\<close>

definition resolve_sunrise :: "environ \<Rightarrow> string" where
  "resolve_sunrise env =
     (let location = strip (environ_get env ''PARAM_location'' [])
      in if location = [] \<or> (length location < 2 \<and> SP \<in> set (environ_get env ''MESSAGE'' []))
         then
           (let original_message = strip (environ_get env ''MESSAGE'' []);
                trigger_pattern = strip (environ_get env ''TRIGGER'' [])
            in if original_message \<noteq> [] \<and> trigger_pattern \<noteq> []
               then
                 (if re_search_param trigger_pattern
                  then extract_after original_message (strip (before_brace trigger_pattern))
                         location
                  else location)
               else location)
         else location)"

section \<open>The command directory: \<open>commands.py\<close>\<close>

text \<open>
  \<open>CommandsBot.split_message\<close> joins \<open>current_message + [line]\<close> without asking first
  whether \<open>current_message\<close> is empty; the rest is the text of the other three copies.
\<close>

fun commands_wrap_words :: "int \<Rightarrow> string list \<Rightarrow> string list \<Rightarrow> string list
    \<Rightarrow> string list \<times> string list" where
  "commands_wrap_words max_chars messages current_line [] = (messages, current_line)"
| "commands_wrap_words max_chars messages current_line (word # words) =
     (let test_line = join SP (current_line @ [word])
      in if int (length test_line) \<le> max_chars
         then commands_wrap_words max_chars messages (current_line @ [word]) words
         else commands_wrap_words max_chars
                (if current_line \<noteq> [] then messages @ [join SP current_line] else messages)
                [word] words)"

fun commands_pack_lines :: "int \<Rightarrow> string list \<Rightarrow> string list \<Rightarrow> string list
    \<Rightarrow> string list \<times> string list" where
  "commands_pack_lines max_chars messages current_message [] = (messages, current_message)"
| "commands_pack_lines max_chars messages current_message (line # lines) =
     (let test_message = join NL (current_message @ [line])
      in if int (length test_message) \<le> max_chars
         then commands_pack_lines max_chars messages (current_message @ [line]) lines
         else
           (let messages1 =
                  (if current_message \<noteq> [] then messages @ [join NL current_message]
                   else messages)
            in if int (length line) > max_chars
               then (case commands_wrap_words max_chars messages1 [] (split_on SP line) of
                       (messages2, current_line) \<Rightarrow>
                         commands_pack_lines max_chars messages2
                           (if current_line \<noteq> [] then [join SP current_line]
                            else current_message)
                           lines)
               else commands_pack_lines max_chars messages1 [line] lines))"

definition commands_split_message :: "string \<Rightarrow> int \<Rightarrow> string list" where
  "commands_split_message text max_chars =
     (if int (length text) \<le> max_chars then [text]
      else (case commands_pack_lines max_chars [] [] (split_on NL text) of
              (messages, current_message) \<Rightarrow>
                (if current_message \<noteq> [] then messages @ [join NL current_message]
                 else messages)))"

text \<open>
  The registry: a dictionary in the order it is written, each entry with its description
  and its example.
\<close>

record command_info =
  desc :: string
  example :: string

definition COMMANDS :: "(string \<times> command_info) list" where
  "COMMANDS =
     [(''weather {location}'', \<lparr>desc = ''Get weather for location'', example = ''weather 90210''\<rparr>),
      (''sunrise {location}'', \<lparr>desc = ''Get sunrise/sunset times'', example = ''sunrise NYC''\<rparr>),
      (''sunset {location}'', \<lparr>desc = ''Get sunrise/sunset times'', example = ''sunset NYC''\<rparr>),
      (''daylight {location}'', \<lparr>desc = ''Get sunrise/sunset times'', example = ''daylight NYC''\<rparr>),
      (''trivia'', \<lparr>desc = ''Random trivia question'', example = ''trivia''\<rparr>),
      (''fact'', \<lparr>desc = ''Interesting tech fact'', example = ''fact''\<rparr>),
      (''joke'', \<lparr>desc = ''Get a joke'', example = ''joke''\<rparr>),
      (''quote'', \<lparr>desc = ''Inspirational quote'', example = ''quote''\<rparr>),
      (''ask {question}'', \<lparr>desc = ''AI assistant'', example = ''ask what is mesh''\<rparr>),
      (''ai {prompt}'', \<lparr>desc = ''AI assistant'', example = ''ai explain LoRa''\<rparr>),
      (''chat {message}'', \<lparr>desc = ''AI assistant'', example = ''chat how to improve range''\<rparr>),
      (''commands'', \<lparr>desc = ''List all commands'', example = ''commands''\<rparr>),
      (''command'', \<lparr>desc = ''List all commands'', example = ''command''\<rparr>)]"

text \<open>A reply is a string or a list of strings (\<open>Union[str, List[str]]\<close>).\<close>

datatype response = Str string | Lst "string list"

text \<open>The decimal digits of a number, as an f-string writes it.\<close>

fun str_nat :: "nat \<Rightarrow> string" where
  "str_nat n =
     (if n < 10 then [char_of (48 + n)] else str_nat (n div 10) @ [char_of (48 + n mod 10)])"

declare str_nat.simps [simp del]

text \<open>
  \<open>command_lines\<close>: one line for each entry but the two of the directory itself.
\<close>

definition command_lines :: "(string \<times> command_info) list \<Rightarrow> string list" where
  "command_lines commands =
     map (\<lambda>(trigger, info). [BULLET] @ '' '' @ trigger @ '' - '' @ desc info)
       (filter (\<lambda>(trigger, info). trigger \<notin> set [''commands'', ''command'']) commands)"

definition header :: "nat \<Rightarrow> nat \<Rightarrow> string" where
  "header i n =
     ''Available Commands: Page '' @ str_nat i @ '' of '' @ str_nat n
     @ '' (Msg '' @ str_nat i @ ''/'' @ str_nat n @ '')''"

text \<open>
  The loop \<open>for i, msg in enumerate(messages, 1)\<close>; \<open>n\<close> is \<open>len(messages)\<close>, and the
  result is what the loop adds to \<open>numbered_messages\<close>.
\<close>

fun numbered_messages :: "nat \<Rightarrow> nat \<Rightarrow> string list \<Rightarrow> string list" where
  "numbered_messages i n [] = []"
| "numbered_messages i n (msg # msgs) =
     (let full_msg = header i n @ [NL] @ msg
      in (if int (length full_msg) > 199 then commands_split_message full_msg 199
          else [full_msg])
         @ numbered_messages (i + 1) n msgs)"

definition get_commands_list :: "(string \<times> command_info) list \<Rightarrow> response" where
  "get_commands_list commands =
     (let commands_text = join NL (command_lines commands);
          max_chars_for_commands = 199 - 50;
          messages = commands_split_message commands_text max_chars_for_commands
      in if length messages > 1
         then Lst (numbered_messages 1 (length messages) messages)
         else (case messages of
                 [] \<Rightarrow> Str ''No commands available.''
               | m # _ \<Rightarrow> Str (''Available Commands:'' @ [NL] @ m)))"

section \<open>The envelope\<close>

text \<open>
  The end of every \<open>main\<close>: an empty reply (the empty string or the empty list) is
  replaced by a fixed error text, and the reply goes under \<open>responses\<close> when it is a list
  and under \<open>response\<close> otherwise. The dictionary handed to \<open>json.dumps\<close> is a list of
  pairs.
\<close>

definition falsy :: "response \<Rightarrow> bool" where
  "falsy r = (case r of Str s \<Rightarrow> s = [] | Lst xs \<Rightarrow> xs = [])"

definition output_dict :: "response \<Rightarrow> (string \<times> response) list" where
  "output_dict response0 =
     (let response = (if falsy response0 then Str ''Error: No response generated'' else response0)
      in case response of
           Lst xs \<Rightarrow> [(''responses'', response)]
         | Str s \<Rightarrow> [(''response'', response)])"

section \<open>The fun bot: \<open>fun.py\<close>\<close>

text \<open>
  \<open>datetime.now()\<close> is an input: the fields of a \<open>datetime\<close>. The day of the year is that
  of \<open>timetuple()\<close>: the days of the months before, one more after February in a leap
  year, and the day of the month.
\<close>

record datetime =
  year :: int
  month :: nat
  day :: int
  hour :: int
  minute :: int
  second :: int
  microsecond :: int

definition is_leap :: "int \<Rightarrow> bool" where
  "is_leap y \<longleftrightarrow> y mod 4 = 0 \<and> (y mod 100 \<noteq> 0 \<or> y mod 400 = 0)"

definition days_before_month :: "int \<Rightarrow> nat \<Rightarrow> int" where
  "days_before_month y m =
     sum_list (take (m - 1) [31, 28, 31, 30, 31, 30, 31, 31, 30, 31, 30, 31])
     + (if m > 2 \<and> is_leap y then 1 else 0)"

definition tm_yday :: "datetime \<Rightarrow> int" where
  "tm_yday d = days_before_month (year d) (month d) + day d"

text \<open>
  Python's generator is not part of the repository. It enters as two functions:
  \<open>seed\<close> gives the state that \<open>random.seed(n)\<close> sets, and \<open>randbelow g n\<close> is the index
  below \<open>n\<close> that the first draw from the state \<open>g\<close> gives; \<open>random.choice(seq)\<close> is
  \<open>seq[randbelow(len(seq))]\<close>. The constructor leaves the state it has seeded.
\<close>

definition FunBot_init :: "(int \<Rightarrow> 'g) \<Rightarrow> datetime \<Rightarrow> 'g" where
  "FunBot_init seed today = seed (year today * 1000 + tm_yday today)"

definition choice :: "('g \<Rightarrow> nat \<Rightarrow> nat) \<Rightarrow> 'g \<Rightarrow> 'a list \<Rightarrow> 'a" where
  "choice randbelow g seq = seq ! randbelow g (length seq)"

definition trivia_list :: "string list" where
  "trivia_list =
     [''Q: What does LoRa stand for? A: Long Range radio technology.'',
      ''Q: What frequency band do most Meshtastic nodes use? A: 915 MHz (US) or 868 MHz (EU).'',
      ''Q: What is mesh networking? A: A network where nodes relay messages for each other.'',
      ''Q: What is the max range of LoRa? A: Up to 10+ miles line-of-sight.'',
      ''Q: What does MQTT stand for? A: Message Queuing Telemetry Transport.'',
      ''Q: What is a hop in mesh networking? A: One relay between source and destination.'',
      ''Q: What is the ISM band? A: Industrial, Scientific, Medical radio band (unlicensed).'',
      ''Q: What does APRS stand for? A: Automatic Packet Reporting System.'',
      ''Q: What is packet radio? A: Digital data transmission over radio waves.'',
      ''Q: What does RSSI measure? A: Received Signal Strength Indicator.'']"

definition facts :: "string list" where
  "facts =
     [''Meshtastic can work completely offline - no internet required!'',
      ''LoRa can transmit through obstacles better than WiFi or Bluetooth.'',
      ''Mesh networks are self-healing - if one node fails, others route around it.'',
      ''The first packet radio network was created in the 1970s by amateur radio operators.'',
      ''LoRa uses spread spectrum modulation for long-range, low-power communication.'',
      ''Mesh networks can span hundreds of miles with enough relay nodes.'',
      ''Meshtastic uses encryption to secure all messages on the mesh.'',
      ''LoRa devices can run for months on battery power.'',
      ''The 915 MHz band is shared with WiFi, Bluetooth, and other devices.'',
      ''Mesh networks are used in disaster relief when infrastructure fails.'']"

definition jokes :: "string list" where
  "jokes =
     [''Why did the mesh node break up? It couldn'' @ [SQ] @ ''t find a good connection!'',
      ''What do you call a mesh network that tells jokes? A pun-net!'',
      ''Why do mesh nodes make good friends? They'' @ [SQ] @ ''re always relaying messages!'',
      ''What'' @ [SQ] @ ''s a mesh node'' @ [SQ] @ ''s favorite song? '' @ [SQ] @ ''I Will Always Route You'' @ [SQ] @ ''!'',
      ''Why did the packet cross the mesh? To get to the other node!'',
      ''What do you call a sleeping mesh network? A nap-net!'',
      ''Why are mesh nodes so reliable? They always hop to it!'',
      ''What'' @ [SQ] @ ''s a mesh node'' @ [SQ] @ ''s favorite game? Hopscotch!'',
      ''Why don'' @ [SQ] @ ''t mesh nodes get lost? They always know the route!'',
      ''What do mesh nodes say when they meet? '' @ [SQ] @ ''Nice to relay you!'' @ [SQ]]"

definition quotes :: "string list" where
  "quotes =
     [''The network is the computer. - John Gage'',
      ''Communication is the key to understanding. - Unknown'',
      ''In a mesh network, every node is important. - Mesh Philosophy'',
      ''The best network is one that works when you need it most. - Unknown'',
      ''Radio waves connect us across distances. - Ham Radio Operator'',
      ''A mesh network is only as strong as its weakest link. - Network Theory'',
      ''Technology should serve humanity, not the other way around. - Unknown'',
      ''The internet of things starts with the mesh of things. - Unknown'',
      ''In disaster, mesh networks become lifelines. - Emergency Responder'',
      ''Connectivity is a human right. - Digital Rights Advocate'']"

definition get_trivia :: "('g \<Rightarrow> nat \<Rightarrow> nat) \<Rightarrow> 'g \<Rightarrow> string" where
  "get_trivia randbelow g = choice randbelow g trivia_list"

definition get_fact :: "('g \<Rightarrow> nat \<Rightarrow> nat) \<Rightarrow> 'g \<Rightarrow> string" where
  "get_fact randbelow g = choice randbelow g facts"

definition get_joke :: "('g \<Rightarrow> nat \<Rightarrow> nat) \<Rightarrow> 'g \<Rightarrow> string" where
  "get_joke randbelow g = choice randbelow g jokes"

definition get_quote :: "('g \<Rightarrow> nat \<Rightarrow> nat) \<Rightarrow> 'g \<Rightarrow> string" where
  "get_quote randbelow g = choice randbelow g quotes"

text \<open>One run: the bot is built at the time \<open>today\<close>, then one getter is called.\<close>

datatype getter = Trivia | Fact | Joke | Quote

definition run_getter :: "(int \<Rightarrow> 'g) \<Rightarrow> ('g \<Rightarrow> nat \<Rightarrow> nat) \<Rightarrow> datetime \<Rightarrow> getter \<Rightarrow> string" where
  "run_getter seed randbelow today which =
     (let g = FunBot_init seed today
      in case which of
           Trivia \<Rightarrow> get_trivia randbelow g
         | Fact \<Rightarrow> get_fact randbelow g
         | Joke \<Rightarrow> get_joke randbelow g
         | Quote \<Rightarrow> get_quote randbelow g)"

section \<open>Predicates of the proofs\<close>

text \<open>
  A chunk is in order for a limit when it fits, or when it holds neither a space nor a
  newline: a token that the two splits of \<open>split_message\<close> cannot divide.
\<close>

definition chunk_ok :: "int \<Rightarrow> string \<Rightarrow> bool" where
  "chunk_ok max_chars c \<longleftrightarrow>
     int (length c) \<le> max_chars \<or> (SP \<notin> set c \<and> NL \<notin> set c)"

text \<open>
  The invariant of both accumulators (\<open>current_line\<close> with the space,
  \<open>current_message\<close> with the newline): empty, or within the limit once joined, or one
  single token.
\<close>

definition acc_ok :: "char \<Rightarrow> int \<Rightarrow> string list \<Rightarrow> bool" where
  "acc_ok sep max_chars cur \<longleftrightarrow>
     cur = [] \<or> int (length (join sep cur)) \<le> max_chars
     \<or> (\<exists>w. cur = [w] \<and> SP \<notin> set w \<and> NL \<notin> set w)"

section \<open>Splitting and joining\<close>

lemma split_on_not_Nil: "split_on sep s \<noteq> []"
  by (induction s) (auto split: list.splits)

lemma split_on_no_sep: "w \<in> set (split_on sep s) \<Longrightarrow> sep \<notin> set w"
  by (induction s arbitrary: w) (auto split: if_splits list.splits)

lemma split_on_subset_all: "\<forall>w \<in> set (split_on sep s). set w \<subseteq> set s"
  by (induction s) (auto split: if_splits list.splits)

lemma split_on_subset: "w \<in> set (split_on sep s) \<Longrightarrow> set w \<subseteq> set s"
  using split_on_subset_all by blast

lemma split_on_absent: "sep \<notin> set s \<Longrightarrow> split_on sep s = [s]"
  by (induction s) auto

lemma acc_ok_chunk: "acc_ok sep n cur \<Longrightarrow> cur \<noteq> [] \<Longrightarrow> chunk_ok n (join sep cur)"
  by (auto simp: acc_ok_def chunk_ok_def)

section \<open>The copy of \<open>commands.py\<close> computes what the other copies compute\<close>

lemma commands_wrap_words_eq:
  "commands_wrap_words n messages cur words = wrap_words n messages cur words"
  by (induction words arbitrary: messages cur) (simp_all add: Let_def)

lemma commands_pack_lines_eq:
  "commands_pack_lines n messages cur lines = pack_lines n messages cur lines"
  by (induction lines arbitrary: messages cur) (simp_all add: Let_def commands_wrap_words_eq)

lemma commands_split_message_eq: "commands_split_message s n = split_message s n"
  by (simp add: commands_split_message_def split_message_def commands_pack_lines_eq)

section \<open>The invariant of the two loops\<close>

lemma wrap_words_ok:
  assumes "wrap_words n messages cur words = (ms, cur')"
    and "\<forall>m \<in> set messages. chunk_ok n m"
    and "acc_ok SP n cur"
    and "\<forall>w \<in> set words. SP \<notin> set w \<and> NL \<notin> set w"
  shows "(\<forall>m \<in> set ms. chunk_ok n m) \<and> acc_ok SP n cur'"
  using assms
proof (induction words arbitrary: messages cur)
  case Nil
  then show ?case by simp
next
  case (Cons word words)
  show ?case
  proof (cases "int (length (join SP (cur @ [word]))) \<le> n")
    case True
    have "acc_ok SP n (cur @ [word])" using True by (simp add: acc_ok_def)
    moreover have "wrap_words n messages (cur @ [word]) words = (ms, cur')"
      using Cons.prems(1) True by (simp split: if_splits)
    ultimately show ?thesis using Cons.IH Cons.prems by simp
  next
    case False
    let ?ms1 = "if cur \<noteq> [] then messages @ [join SP cur] else messages"
    have 1: "wrap_words n ?ms1 [word] words = (ms, cur')"
      using Cons.prems(1) False by (simp split: if_splits)
    have 2: "\<forall>m \<in> set ?ms1. chunk_ok n m"
      using Cons.prems(2,3) acc_ok_chunk by auto
    have 3: "acc_ok SP n [word]" using Cons.prems(4) by (simp add: acc_ok_def)
    show ?thesis using Cons.IH[OF 1 2 3] Cons.prems(4) by simp
  qed
qed

lemma pack_lines_ok:
  assumes "pack_lines n messages cur lines = (ms, cur')"
    and "\<forall>m \<in> set messages. chunk_ok n m"
    and "acc_ok NL n cur"
    and "\<forall>l \<in> set lines. NL \<notin> set l"
  shows "(\<forall>m \<in> set ms. chunk_ok n m) \<and> acc_ok NL n cur'"
  using assms
proof (induction lines arbitrary: messages cur)
  case Nil
  then show ?case by simp
next
  case (Cons line lines)
  let ?ms1 = "if cur \<noteq> [] then messages @ [join NL cur] else messages"
  have ms1: "\<forall>m \<in> set ?ms1. chunk_ok n m"
    using Cons.prems(2,3) acc_ok_chunk by auto
  have rest: "\<forall>l \<in> set lines. NL \<notin> set l" using Cons.prems(4) by simp
  show ?case
  proof (cases "int (length (join NL (cur @ [line]))) \<le> n")
    case True
    have "acc_ok NL n (cur @ [line])" using True by (simp add: acc_ok_def)
    moreover have "pack_lines n messages (cur @ [line]) lines = (ms, cur')"
      using Cons.prems(1) True by (simp split: if_splits)
    ultimately show ?thesis using Cons.IH Cons.prems(2) rest by blast
  next
    case False
    show ?thesis
    proof (cases "int (length line) > n")
      case long: True
      obtain ms2 cl where w: "wrap_words n ?ms1 [] (split_on SP line) = (ms2, cl)"
        by (cases "wrap_words n ?ms1 [] (split_on SP line)")
      have words: "\<forall>w \<in> set (split_on SP line). SP \<notin> set w \<and> NL \<notin> set w"
        using split_on_no_sep split_on_subset Cons.prems(4) by fastforce
      have "acc_ok SP n []" by (simp add: acc_ok_def)
      from wrap_words_ok[OF w ms1 this words]
      have ms2: "\<forall>m \<in> set ms2. chunk_ok n m" and cl: "acc_ok SP n cl" by simp_all
      let ?cur1 = "if cl \<noteq> [] then [join SP cl] else cur"
      have 1: "pack_lines n ms2 ?cur1 lines = (ms, cur')"
        using Cons.prems(1) False long w by (simp split: if_splits)
      have 3: "acc_ok NL n ?cur1"
        using cl Cons.prems(3) by (auto simp: acc_ok_def)
      show ?thesis using Cons.IH[OF 1 ms2 3 rest] .
    next
      case short: False
      have 1: "pack_lines n ?ms1 [line] lines = (ms, cur')"
        using Cons.prems(1) False short by (simp split: if_splits)
      have 3: "acc_ok NL n [line]" using short by (simp add: acc_ok_def)
      show ?thesis using Cons.IH[OF 1 ms1 3 rest] .
    qed
  qed
qed

lemma split_message_chunk_ok:
  assumes c: "c \<in> set (split_message s n)"
  shows "chunk_ok n c"
proof (cases "int (length s) \<le> n")
  case True
  then show ?thesis using c by (simp add: split_message_def chunk_ok_def)
next
  case False
  obtain ms cur where p: "pack_lines n [] [] (split_on NL s) = (ms, cur)"
    by (cases "pack_lines n [] [] (split_on NL s)")
  have "\<forall>l \<in> set (split_on NL s). NL \<notin> set l" using split_on_no_sep by blast
  from pack_lines_ok[OF p _ _ this]
  have "\<forall>m \<in> set ms. chunk_ok n m" and "acc_ok NL n cur" by (simp_all add: acc_ok_def)
  then show ?thesis using c False p acc_ok_chunk
    by (auto simp: split_message_def split: if_splits)
qed

lemma split_message_fixed: "chunk_ok n c \<Longrightarrow> split_message c n = [c]"
  by (auto simp: chunk_ok_def split_message_def split_on_absent)

text \<open>Both accumulators hold something once a word, or a line, has gone through.\<close>

lemma wrap_words_cur:
  "wrap_words n messages cur words = (ms, cur') \<Longrightarrow> cur \<noteq> [] \<or> words \<noteq> [] \<Longrightarrow> cur' \<noteq> []"
  by (induction words arbitrary: messages cur) (auto split: if_splits simp: Let_def)

lemma pack_lines_cur:
  "pack_lines n messages cur lines = (ms, cur') \<Longrightarrow> cur \<noteq> [] \<or> lines \<noteq> [] \<Longrightarrow> cur' \<noteq> []"
proof (induction lines arbitrary: messages cur)
  case Nil
  then show ?case by simp
next
  case (Cons line lines)
  then show ?case
    using wrap_words_cur[of n _ "[]" "split_on SP line"] split_on_not_Nil[of SP line]
    by (auto split: if_splits prod.splits simp: Let_def)
qed

lemma split_message_not_Nil: "split_message s n \<noteq> []"
  using pack_lines_cur[of n "[]" "[]" "split_on NL s"] split_on_not_Nil[of NL s]
  by (auto simp: split_message_def split: prod.splits)

section \<open>The claims about the paginator\<close>

text \<open>
  C1, as the code has it. Every chunk that \<open>split_message\<close> returns, in any of the four
  copies, either has at most \<open>max_chars\<close> characters or contains neither a space nor a
  newline: it is one token of the two splits, emitted whole. The bound holds for every
  \<open>max_chars\<close>, positive or not.
\<close>

theorem split_message_chunk_bound:
  assumes "c \<in> set (split_message s max_chars) \<or> c \<in> set (commands_split_message s max_chars)"
  shows "int (length c) \<le> max_chars \<or> (SP \<notin> set c \<and> NL \<notin> set c)"
  using assms split_message_chunk_ok[of c s max_chars]
  by (simp add: commands_split_message_eq chunk_ok_def)

theorem split_message_chunk_bound_witness:
  "(''dddddd'' \<in> set (split_message ''aa bb cc dddddd e'' 5)
      \<or> ''dddddd'' \<in> set (commands_split_message ''aa bb cc dddddd e'' 5))
   \<and> (int (length ''dddddd'') \<le> 5 \<or> (SP \<notin> set ''dddddd'' \<and> NL \<notin> set ''dddddd''))"
proof -
  have h: "''dddddd'' \<in> set (split_message ''aa bb cc dddddd e'' 5)
      \<or> ''dddddd'' \<in> set (commands_split_message ''aa bb cc dddddd e'' 5)"
    by (simp add: split_message_def)
  show ?thesis using h split_message_chunk_bound[OF h] by simp
qed

text \<open>
  C1, as the claim words it, fails on a token that holds a tab: the token has no space
  and no newline, so it is emitted whole, above the limit, and it is not free of
  whitespace.
\<close>

theorem split_message_tab_counterexample:
  "split_message [CHR ''a'', TAB, CHR ''b'', CHR ''c''] 3 = [[CHR ''a'', TAB, CHR ''b'', CHR ''c'']]
   \<and> \<not> int (length [CHR ''a'', TAB, CHR ''b'', CHR ''c'']) \<le> 3
   \<and> TAB \<in> set [CHR ''a'', TAB, CHR ''b'', CHR ''c'']
   \<and> is_space TAB"
  by (simp add: split_message_def is_space_def)

text \<open>
  C2 at a reply that opens with a newline, followed by a line of 199 characters, under
  the limit 199: the text is not empty, and the first chunk returned is the empty
  string. The accumulator holds the empty first line, which makes it a non-empty list,
  and the guard \<open>if current_message\<close> lets it through.
\<close>

theorem split_message_empty_chunk:
  "split_message (NL # replicate 199 (CHR ''a'')) 199 = [[], replicate 199 (CHR ''a'')]"
  by code_simp

text \<open>
  C4. Splitting a chunk of a result again, under the same limit, gives that chunk alone.
  The limit need not be positive.
\<close>

theorem split_message_idempotent:
  assumes "c \<in> set (split_message s max_chars)"
  shows "split_message c max_chars = [c]"
  using assms by (simp add: split_message_chunk_ok split_message_fixed)

theorem split_message_idempotent_witness:
  "''dddddd'' \<in> set (split_message ''aa bb cc dddddd e'' 5)
   \<and> split_message ''dddddd'' 5 = [''dddddd'']"
proof -
  have h: "''dddddd'' \<in> set (split_message ''aa bb cc dddddd e'' 5)"
    by (simp add: split_message_def)
  show ?thesis using h split_message_idempotent[OF h] by simp
qed

section \<open>The claims about the parameter resolver\<close>

lemma startswith_Nil: "startswith s []"
  by (simp add: startswith_def)

lemma startswith_Cons:
  "startswith s (c # p) \<longleftrightarrow> (case s of [] \<Rightarrow> False | d # t \<Rightarrow> d = c \<and> startswith t p)"
  by (cases s) (auto simp: startswith_def)

lemma re_search_param_brace: "re_search_param s \<Longrightarrow> CHR ''{'' \<in> set s"
  by (induction s) (auto simp: re_param_here_def)

lemma known_prefix_loop_hit:
  assumes "p \<in> set [''ask '', ''ai '', ''chat '']" and "startswith (lower m) p"
  shows "known_prefix_loop m q [''ask '', ''ai '', ''chat ''] = remove_quotes (strip (drop (length p) m))"
  using assms by (auto simp: startswith_Cons startswith_Nil split: list.splits)

lemma known_prefix_loop_miss:
  "\<forall>p \<in> set ps. \<not> startswith (lower m) p \<Longrightarrow> known_prefix_loop m q ps = q"
  by (induction ps) auto

text \<open>
  C3, as the code has it. The host parameter of \<open>ai.py\<close> is the first non-empty one of
  \<open>PARAM_question\<close>, \<open>PARAM_prompt\<close> and \<open>PARAM_message\<close>; that of \<open>sunrise.py\<close> is
  \<open>PARAM_location\<close>. When the stripped parameter is not empty and either is long enough
  or \<open>MESSAGE\<close> holds no space, the resolver returns it and extracts nothing. Long enough
  is 3 characters in \<open>ai.py\<close> and 2 in \<open>sunrise.py\<close>.
\<close>

theorem resolver_trusts_host_param:
  assumes "question = strip (str_or (environ_get env ''PARAM_question'' [])
                       (str_or (environ_get env ''PARAM_prompt'' [])
                          (environ_get env ''PARAM_message'' [])))"
    and "location = strip (environ_get env ''PARAM_location'' [])"
  shows "(question \<noteq> [] \<and> (3 \<le> length question \<or> SP \<notin> set (environ_get env ''MESSAGE'' []))
            \<longrightarrow> resolve_ai env = question)
       \<and> (location \<noteq> [] \<and> (2 \<le> length location \<or> SP \<notin> set (environ_get env ''MESSAGE'' []))
            \<longrightarrow> resolve_sunrise env = location)"
  using assms by (auto simp: resolve_ai_def resolve_sunrise_def Let_def)

theorem resolver_trusts_host_param_witness:
  "resolve_ai [''PARAM_question'' \<mapsto> '' Explain LoRa basics '', ''PARAM_location'' \<mapsto> ''NYC'',
               ''MESSAGE'' \<mapsto> ''ask something else'', ''TRIGGER'' \<mapsto> ''ask {question}'']
     = ''Explain LoRa basics''
   \<and> resolve_sunrise [''PARAM_question'' \<mapsto> '' Explain LoRa basics '', ''PARAM_location'' \<mapsto> ''NYC'',
               ''MESSAGE'' \<mapsto> ''ask something else'', ''TRIGGER'' \<mapsto> ''ask {question}'']
     = ''NYC''"
proof -
  let ?env = "[''PARAM_question'' \<mapsto> '' Explain LoRa basics '', ''PARAM_location'' \<mapsto> ''NYC'',
               ''MESSAGE'' \<mapsto> ''ask something else'', ''TRIGGER'' \<mapsto> ''ask {question}'']"
  have q: "''Explain LoRa basics'' = strip (str_or (environ_get ?env ''PARAM_question'' [])
                       (str_or (environ_get ?env ''PARAM_prompt'' [])
                          (environ_get ?env ''PARAM_message'' [])))"
    by code_simp
  have l: "''NYC'' = strip (environ_get ?env ''PARAM_location'' [])"
    by code_simp
  have h1: "''Explain LoRa basics'' \<noteq> [] \<and> (3 \<le> length ''Explain LoRa basics''
              \<or> SP \<notin> set (environ_get ?env ''MESSAGE'' []))"
    by simp
  have h2: "''NYC'' \<noteq> [] \<and> (2 \<le> length ''NYC'' \<or> SP \<notin> set (environ_get ?env ''MESSAGE'' []))"
    by simp
  show ?thesis using resolver_trusts_host_param[OF q l] h1 h2 by blast
qed

text \<open>
  C3, as the claim words it (length at least 2), fails in \<open>ai.py\<close>: the parameter \<open>hi\<close>
  has two characters, the message holds a space, and the resolver replaces the parameter
  by what follows the prefix in the message.
\<close>

theorem resolve_ai_two_chars_counterexample:
  "strip ''hi'' = ''hi'' \<and> ''hi'' \<noteq> [] \<and> 2 \<le> length ''hi''
   \<and> resolve_ai [''PARAM_question'' \<mapsto> ''hi'', ''MESSAGE'' \<mapsto> ''ask hi there'',
                 ''TRIGGER'' \<mapsto> ''ask {question}''] = ''hi there''
   \<and> ''hi there'' \<noteq> ''hi''"
  by code_simp

text \<open>
  C6. With the trigger \<open>ask {question}\<close>, the message \<open>ask "What is mesh?"\<close> and an
  empty parameter, \<open>ai.py\<close> resolves \<open>What is mesh?\<close>. The second line shows the
  comparison without case, the stripping and the single quotes on the same example.
\<close>

theorem resolve_ai_quoted_question:
  "resolve_ai [''PARAM_question'' \<mapsto> [], ''MESSAGE'' \<mapsto> ''ask '' @ [DQ] @ ''What is mesh?'' @ [DQ],
               ''TRIGGER'' \<mapsto> ''ask {question}''] = ''What is mesh?''
   \<and> resolve_ai [''MESSAGE'' \<mapsto> ''ASK  '' @ [SQ] @ ''What is mesh?'' @ [SQ] @ '' '',
               ''TRIGGER'' \<mapsto> ''ask {question}''] = ''What is mesh?''"
  by code_simp

text \<open>
  C7, as the code has it. The list of known prefixes is tried in the branch for a
  message without a trigger pattern: when the argument is to be extracted, the stripped
  \<open>TRIGGER\<close> is empty and the lowered message starts with one of \<open>ask \<close>, \<open>ai \<close> and
  \<open>chat \<close>, the resolver of \<open>ai.py\<close> returns what follows that prefix, stripped and
  unquoted. No message starts with two of the three, so the one that matches is the
  first that matches.
\<close>

theorem known_prefix_fallback:
  assumes "question = strip (str_or (environ_get env ''PARAM_question'' [])
                       (str_or (environ_get env ''PARAM_prompt'' [])
                          (environ_get env ''PARAM_message'' [])))"
    and "question = [] \<or> (length question < 3 \<and> SP \<in> set (environ_get env ''MESSAGE'' []))"
    and "original_message = strip (environ_get env ''MESSAGE'' [])"
    and "strip (environ_get env ''TRIGGER'' []) = []"
    and "p \<in> set [''ask '', ''ai '', ''chat '']"
    and "startswith (lower original_message) p"
  shows "resolve_ai env = remove_quotes (strip (drop (length p) original_message))"
proof -
  have ne: "original_message \<noteq> []"
    using assms(5,6) by (auto simp: startswith_def lower_def)
  show ?thesis
    using assms(1-4) ne known_prefix_loop_hit[OF assms(5,6), of question]
    by (auto simp: resolve_ai_def Let_def)
qed

theorem known_prefix_fallback_witness:
  "resolve_ai [''MESSAGE'' \<mapsto> ''Chat '' @ [SQ] @ ''how far?'' @ [SQ] @ '' ''] = ''how far?''"
proof -
  let ?env = "[''MESSAGE'' \<mapsto> ''Chat '' @ [SQ] @ ''how far?'' @ [SQ] @ '' '']"
  let ?om = "''Chat '' @ [SQ] @ ''how far?'' @ [SQ]"
  have q: "[] = strip (str_or (environ_get ?env ''PARAM_question'' [])
                       (str_or (environ_get ?env ''PARAM_prompt'' [])
                          (environ_get ?env ''PARAM_message'' [])))"
    by code_simp
  have a: "([]::string) = [] \<or> (length ([]::string) < 3 \<and> SP \<in> set (environ_get ?env ''MESSAGE'' []))"
    by simp
  have om: "?om = strip (environ_get ?env ''MESSAGE'' [])" by code_simp
  have tp: "strip (environ_get ?env ''TRIGGER'' []) = []" by code_simp
  have p: "''chat '' \<in> set [''ask '', ''ai '', ''chat '']" by simp
  have m: "startswith (lower ?om) ''chat ''" by code_simp
  have r: "remove_quotes (strip (drop (length ''chat '') ?om)) = ''how far?''" by code_simp
  show ?thesis using known_prefix_fallback[OF q a om tp p m] r by simp
qed

text \<open>
  C7, as the claim words it, fails: with the trigger \<open>ask {question}\<close> and the message
  \<open>ai hello\<close> the trigger prefix does not match, the known prefix \<open>ai \<close> would, and the
  resolver returns the empty string, not \<open>hello\<close>. The list is not consulted when a
  trigger pattern is present.
\<close>

theorem known_prefix_fallback_counterexample:
  "\<not> startswith (lower (strip ''ai hello'')) (lower (strip (before_brace (strip ''ask {question}''))))
   \<and> startswith (lower (strip ''ai hello'')) ''ai ''
   \<and> resolve_ai [''MESSAGE'' \<mapsto> ''ai hello'', ''TRIGGER'' \<mapsto> ''ask {question}''] = []
   \<and> remove_quotes (strip (drop (length ''ai '') (strip ''ai hello''))) = ''hello''"
  by code_simp

text \<open>
  C10. A host parameter that is not empty but too short, with a space in \<open>MESSAGE\<close>,
  sends both resolvers into the extraction. When the message does not start with the
  trigger prefix and with none of the known prefixes, the resolved argument is the
  stripped host parameter. The trigger prefix is the text before the first brace,
  stripped, or the whole pattern when it has no brace.
\<close>

theorem resolver_keeps_host_param:
  assumes "question = strip (str_or (environ_get env ''PARAM_question'' [])
                       (str_or (environ_get env ''PARAM_prompt'' [])
                          (environ_get env ''PARAM_message'' [])))"
    and "location = strip (environ_get env ''PARAM_location'' [])"
    and "original_message = strip (environ_get env ''MESSAGE'' [])"
    and "trigger_pattern = strip (environ_get env ''TRIGGER'' [])"
    and "trigger_prefix = (if CHR ''{'' \<in> set trigger_pattern
                           then strip (before_brace trigger_pattern) else trigger_pattern)"
    and "trigger_pattern \<noteq> [] \<longrightarrow> \<not> startswith (lower original_message) (lower trigger_prefix)"
    and "\<forall>p \<in> set [''ask '', ''ai '', ''chat '']. \<not> startswith (lower original_message) p"
  shows "(question \<noteq> [] \<and> length question < 3 \<and> SP \<in> set (environ_get env ''MESSAGE'' [])
            \<longrightarrow> resolve_ai env = question)
       \<and> (location \<noteq> [] \<and> length location < 2 \<and> SP \<in> set (environ_get env ''MESSAGE'' [])
            \<longrightarrow> resolve_sunrise env = location)"
proof -
  have loop: "known_prefix_loop original_message question [''ask '', ''ai '', ''chat ''] = question"
    using assms(7) by (rule known_prefix_loop_miss)
  have ai: "resolve_ai env = question"
    if "question \<noteq> []" "length question < 3" "SP \<in> set (environ_get env ''MESSAGE'' [])"
    using that assms(1,3-6) loop re_search_param_brace[of trigger_pattern]
    by (auto simp: resolve_ai_def Let_def extract_after_def)
  have sun: "resolve_sunrise env = location"
    if "location \<noteq> []" "length location < 2" "SP \<in> set (environ_get env ''MESSAGE'' [])"
    using that assms(2-6) re_search_param_brace[of trigger_pattern]
    by (auto simp: resolve_sunrise_def Let_def extract_after_def)
  show ?thesis using ai sun by blast
qed

theorem resolver_keeps_host_param_witness:
  "resolve_ai [''PARAM_message'' \<mapsto> ''x'', ''PARAM_location'' \<mapsto> ''y'',
               ''MESSAGE'' \<mapsto> ''foo bar'', ''TRIGGER'' \<mapsto> ''ask {question}''] = ''x''
   \<and> resolve_sunrise [''PARAM_message'' \<mapsto> ''x'', ''PARAM_location'' \<mapsto> ''y'',
               ''MESSAGE'' \<mapsto> ''foo bar'', ''TRIGGER'' \<mapsto> ''ask {question}''] = ''y''"
proof -
  let ?env = "[''PARAM_message'' \<mapsto> ''x'', ''PARAM_location'' \<mapsto> ''y'',
               ''MESSAGE'' \<mapsto> ''foo bar'', ''TRIGGER'' \<mapsto> ''ask {question}'']"
  have q: "''x'' = strip (str_or (environ_get ?env ''PARAM_question'' [])
                       (str_or (environ_get ?env ''PARAM_prompt'' [])
                          (environ_get ?env ''PARAM_message'' [])))"
    by code_simp
  have l: "''y'' = strip (environ_get ?env ''PARAM_location'' [])" by code_simp
  have om: "''foo bar'' = strip (environ_get ?env ''MESSAGE'' [])" by code_simp
  have tp: "''ask {question}'' = strip (environ_get ?env ''TRIGGER'' [])" by code_simp
  have pr: "''ask'' = (if CHR ''{'' \<in> set ''ask {question}''
                           then strip (before_brace ''ask {question}'') else ''ask {question}'')"
    by code_simp
  have nm: "''ask {question}'' \<noteq> [] \<longrightarrow> \<not> startswith (lower ''foo bar'') (lower ''ask'')"
    by code_simp
  have nk: "\<forall>p \<in> set [''ask '', ''ai '', ''chat '']. \<not> startswith (lower ''foo bar'') p"
    by code_simp
  have h1: "''x'' \<noteq> [] \<and> length ''x'' < 3 \<and> SP \<in> set (environ_get ?env ''MESSAGE'' [])"
    by code_simp
  have h2: "''y'' \<noteq> [] \<and> length ''y'' < 2 \<and> SP \<in> set (environ_get ?env ''MESSAGE'' [])"
    by code_simp
  show ?thesis using resolver_keeps_host_param[OF q l om tp pr nm nk] h1 h2 by blast
qed

section \<open>The claim about the paged command list\<close>

text \<open>The three headers of a list of three pages.\<close>

lemma header_3:
  "header 1 3 = ''Available Commands: Page 1 of 3 (Msg 1/3)''"
  "header 2 3 = ''Available Commands: Page 2 of 3 (Msg 2/3)''"
  "header 3 3 = ''Available Commands: Page 3 of 3 (Msg 3/3)''"
  by code_simp+

lemma header_3_Suc:
  "header (Suc 0) 3 = ''Available Commands: Page 1 of 3 (Msg 1/3)''"
  "header (Suc (Suc 0)) 3 = ''Available Commands: Page 2 of 3 (Msg 2/3)''"
  "header (Suc (Suc (Suc 0))) 3 = ''Available Commands: Page 3 of 3 (Msg 3/3)''"
  using header_3 by (simp_all add: numeral_2_eq_2 numeral_3_eq_3)

text \<open>
  C5, as the code has it. When the body of the command list splits into three chunks
  under the budget \<open>199 - 50\<close> and each chunk has at most 157 characters (every chunk
  within the budget has), \<open>get_commands_list\<close> returns three messages: message \<open>i\<close> is
  the line \<open>Available Commands: Page i of 3 (Msg i/3)\<close>, a newline and chunk \<open>i\<close>, and
  none is longer than 199 characters. The header and its newline take 42 characters.
\<close>

theorem paged_headers:
  assumes "commands_split_message (join NL (command_lines commands)) (199 - 50) = [a, b, c]"
    and "length a \<le> 157" and "length b \<le> 157" and "length c \<le> 157"
  shows "get_commands_list commands =
           Lst [''Available Commands: Page 1 of 3 (Msg 1/3)'' @ [NL] @ a,
                ''Available Commands: Page 2 of 3 (Msg 2/3)'' @ [NL] @ b,
                ''Available Commands: Page 3 of 3 (Msg 3/3)'' @ [NL] @ c]
       \<and> length (''Available Commands: Page 1 of 3 (Msg 1/3)'' @ [NL] @ a) \<le> 199
       \<and> length (''Available Commands: Page 2 of 3 (Msg 2/3)'' @ [NL] @ b) \<le> 199
       \<and> length (''Available Commands: Page 3 of 3 (Msg 3/3)'' @ [NL] @ c) \<le> 199"
proof -
  have n: "numbered_messages 1 3 [a, b, c] =
           [header 1 3 @ [NL] @ a, header 2 3 @ [NL] @ b, header 3 3 @ [NL] @ c]"
    using assms(2-4) by (simp add: Let_def header_3 header_3_Suc)
  have len: "length [a, b, c] = 3" by simp
  have g: "get_commands_list commands = Lst (numbered_messages 1 3 [a, b, c])"
    unfolding get_commands_list_def Let_def assms(1) len by simp
  show ?thesis unfolding g n header_3 using assms(2-4) by simp
qed

text \<open>The registry of the source is such a list: its body splits after 3 and after 7 lines.\<close>

theorem paged_headers_witness:
  "get_commands_list COMMANDS =
     Lst [''Available Commands: Page 1 of 3 (Msg 1/3)'' @ [NL] @ join NL (take 3 (command_lines COMMANDS)),
          ''Available Commands: Page 2 of 3 (Msg 2/3)'' @ [NL] @ join NL (take 4 (drop 3 (command_lines COMMANDS))),
          ''Available Commands: Page 3 of 3 (Msg 3/3)'' @ [NL] @ join NL (drop 7 (command_lines COMMANDS))]"
proof -
  let ?a = "join NL (take 3 (command_lines COMMANDS))"
  let ?b = "join NL (take 4 (drop 3 (command_lines COMMANDS)))"
  let ?c = "join NL (drop 7 (command_lines COMMANDS))"
  have s: "commands_split_message (join NL (command_lines COMMANDS)) (199 - 50) = [?a, ?b, ?c]"
    by code_simp
  have a: "length ?a \<le> 157" by code_simp
  have b: "length ?b \<le> 157" by code_simp
  have c: "length ?c \<le> 157" by code_simp
  show ?thesis using paged_headers[OF s a b c] by simp
qed

text \<open>
  C5, as the claim words it, fails for a registry whose one trigger is a token of 200
  characters. The body splits into three chunks, the second being the token. With its
  header it exceeds 199 characters and is split again at 199, which puts the header
  and the token into messages of their own: four messages come back, the third has 200
  characters and no header, and the fourth carries the header of page 3.
\<close>

theorem paged_headers_counterexample:
  "length (commands_split_message
             (join NL (command_lines [(replicate 200 (CHR ''x''), \<lparr>desc = ''d'', example = ''e''\<rparr>)]))
             (199 - 50)) = 3
   \<and> get_commands_list [(replicate 200 (CHR ''x''), \<lparr>desc = ''d'', example = ''e''\<rparr>)] =
       Lst [''Available Commands: Page 1 of 3 (Msg 1/3)'' @ [NL, BULLET],
            ''Available Commands: Page 2 of 3 (Msg 2/3)'',
            replicate 200 (CHR ''x''),
            ''Available Commands: Page 3 of 3 (Msg 3/3)'' @ [NL] @ ''- d'']
   \<and> length (replicate 200 (CHR ''x'')) > 199"
  by code_simp

section \<open>The claim about the envelope\<close>

text \<open>
  C8. A reply that is a string, a chunk and so not empty, goes out as a dictionary with
  the one key \<open>response\<close> and that string; a reply that is a list of more than one
  string goes out with the one key \<open>responses\<close> and that list, all its entries. Whatever
  the string, the key of a string reply is \<open>response\<close>.
\<close>

theorem output_dict_shape:
  "(s \<noteq> [] \<longrightarrow> output_dict (Str s) = [(''response'', Str s)])
   \<and> (1 < length xs \<longrightarrow> output_dict (Lst xs) = [(''responses'', Lst xs)])
   \<and> map fst (output_dict (Str s)) = [''response'']"
  by (auto simp: output_dict_def falsy_def)

theorem output_dict_shape_witness:
  "output_dict (Str ''ok'') = [(''response'', Str ''ok'')]
   \<and> output_dict (Lst [''a'', ''b'', ''c'']) = [(''responses'', Lst [''a'', ''b'', ''c''])]
   \<and> length [''a'', ''b'', ''c''] = 3"
  using output_dict_shape[of "''ok''" "[''a'', ''b'', ''c'']"] by simp

section \<open>The claim about the fun bot\<close>

text \<open>
  C9. Two runs at times of the same calendar date (year, month and day; the time of
  day is free) that call the same getter return the same string, for every generator:
  the seed is computed from the year and the day of the year alone.
\<close>

theorem fun_bot_same_date:
  assumes "year d1 = year d2" and "month d1 = month d2" and "day d1 = day d2"
  shows "run_getter seed randbelow d1 which = run_getter seed randbelow d2 which"
  using assms by (simp add: run_getter_def FunBot_init_def tm_yday_def)

theorem fun_bot_same_date_witness:
  "run_getter (\<lambda>n. n) (\<lambda>g n. nat (g mod int n))
     \<lparr>year = 2025, month = 12, day = 31, hour = 8, minute = 15, second = 0, microsecond = 0\<rparr> Joke
   = run_getter (\<lambda>n. n) (\<lambda>g n. nat (g mod int n))
     \<lparr>year = 2025, month = 12, day = 31, hour = 23, minute = 59, second = 59, microsecond = 7\<rparr> Joke"
  by (rule fun_bot_same_date) simp_all

end
